theory Spec2Isabelle
  imports Complex_Main "HOL-Library.Sublist" "HOL-Library.AList" "HOL-Library.Log_Nat"
begin

section \<open>The values of number inputs\<close>

text \<open>
  The state variables \<open>heightFt\<close>, \<open>heightIn\<close> and \<open>weightLbs\<close> of the profile form
  hold the \<open>value\<close> string of an \<open>input type="number"\<close>: the empty string, or a
  numeral. \<open>None\<close> is the empty string and \<open>Some q\<close> the numeral that reads \<open>q\<close>.
  The arithmetic of the profile form is done on these rationals: what is proved of it is
  the sign of a height or a weight. The meal plan below adds and compares doubles.
\<close>

type_synonym number_input = "rat option"

definition Number_of :: "number_input \<Rightarrow> rat" where
  \<comment> \<open>\<open>Number(v)\<close>, also the conversion \<open>v < 3\<close> applies to a string: \<open>Number('')\<close> is 0\<close>
  "Number_of v = (case v of None \<Rightarrow> 0 | Some q \<Rightarrow> q)"

definition Math_round :: "rat \<Rightarrow> rat" where
  \<comment> \<open>\<open>Math.round\<close>: the nearest integer, a half going up\<close>
  "Math_round x = of_int \<lfloor>x + 1 / 2\<rfloor>"

section \<open>ProfileForm.jsx\<close>

record health_profile =
  height_cm :: rat
  weight_kg :: rat
  activity_level :: int
  exercise_freq_per_week :: int
  diabetic_type :: string

definition DEFAULT_PROFILE :: health_profile where
  "DEFAULT_PROFILE =
     \<lparr>height_cm = 170, weight_kg = 70, activity_level = 2,
      exercise_freq_per_week = 2, diabetic_type = ''type2''\<rparr>"

record profile_form =
  profile :: health_profile
  heightFt :: number_input
  heightIn :: number_input
  weightLbs :: number_input
  errors :: "(string \<times> string) list"

definition validate :: "profile_form \<Rightarrow> (string \<times> string) list \<times> bool" where
  \<comment> \<open>returns \<open>newErrors\<close>, which \<open>setErrors\<close> stores, and the result\<close>
  "validate f =
     (let newErrors = [];
          newErrors =
            (if heightFt f = None \<or> Number_of (heightFt f) < 3 \<or> Number_of (heightFt f) > 8
             then AList.update ''height'' ''Please enter a valid height'' newErrors
             else newErrors);
          newErrors =
            (if weightLbs f = None \<or> Number_of (weightLbs f) < 50 \<or> Number_of (weightLbs f) > 700
             then AList.update ''weight'' ''Please enter a valid weight'' newErrors
             else newErrors)
      in (newErrors, length newErrors = 0))"

definition handleSubmit :: "profile_form \<Rightarrow> profile_form \<times> health_profile option" where
  \<comment> \<open>the form after the call, and the argument of \<open>onSubmit\<close> when it is called\<close>
  "handleSubmit f =
     (let (newErrors, ok) = validate f;
          f' = f\<lparr>errors := newErrors\<rparr>
      in if ok then
           (let totalInches = Number_of (heightFt f) * 12
                              + Number_of (case heightIn f of None \<Rightarrow> Some 0 | Some q \<Rightarrow> Some q);
                heightCm = Math_round (totalInches * 2.54);
                weightKg = Math_round (Number_of (weightLbs f) / 2.20462)
            in (f', Some ((profile f)\<lparr>height_cm := heightCm, weight_kg := weightKg\<rparr>)))
         else (f', None))"

definition blank_form :: profile_form where
  \<comment> \<open>the initial state of the component\<close>
  "blank_form =
     \<lparr>profile = DEFAULT_PROFILE, heightFt = None, heightIn = None, weightLbs = None,
      errors = []\<rparr>"

section \<open>App.jsx: the wizard steps\<close>

definition START :: int where "START = 0"
definition PROFILE :: int where "PROFILE = 1"
definition CARE_MODE :: int where "CARE_MODE = 2"
definition DASHBOARD :: int where "DASHBOARD = 3"
definition METRICS :: int where "METRICS = 4"
definition MEAL_PLAN :: int where "MEAL_PLAN = 5"

definition handleBack :: "int \<Rightarrow> int" where
  \<comment> \<open>the value of \<open>currentStep\<close> after the call, from its value before\<close>
  "handleBack currentStep =
     (if currentStep = MEAL_PLAN then METRICS
      else if currentStep = METRICS then DASHBOARD
      else if currentStep = DASHBOARD then CARE_MODE
      else if currentStep = CARE_MODE then PROFILE
      else if currentStep = PROFILE then START
      else currentStep)"

section \<open>JavaScript numbers\<close>

text \<open>
  A JavaScript number is an IEEE 754 double: a finite value, an infinity or NaN. A finite
  double is given by the rational it stands for. Negative zero is not kept apart from
  zero: it is falsy, it prints and compares as 0, and nothing below divides by it.

  \<open>fl x\<close> is the double nearest to the rational \<open>x\<close>, a tie going to the even
  significand, and an infinity when the rounded value leaves the range.
\<close>

datatype double = Finite rat | PInf | NInf | NaN

definition pow2 :: "int \<Rightarrow> rat" where
  "pow2 e = (if 0 \<le> e then 2 ^ nat e else 1 / 2 ^ nat (- e))"

definition ilog2 :: "rat \<Rightarrow> int" where
  \<comment> \<open>for \<open>a > 0\<close>, the \<open>e\<close> with \<open>2^e \<le> a < 2^(e+1)\<close>\<close>
  "ilog2 a =
     (let (p, q) = quotient_of a; d = bitlen p - bitlen q
      in if pow2 d \<le> a then d else d - 1)"

definition round_half_even :: "rat \<Rightarrow> int" where
  "round_half_even x =
     (let f = \<lfloor>x\<rfloor>; r = x - of_int f
      in if r < 1 / 2 then f else if 1 / 2 < r then f + 1 else if even f then f else f + 1)"

definition fl :: "rat \<Rightarrow> double" where
  \<comment> \<open>53 bits of significand; below \<open>2^-1022\<close> the spacing stays \<open>2^-1074\<close>\<close>
  "fl x =
     (if x = 0 then Finite 0
      else
        (let a = \<bar>x\<bar>;
             q = max (ilog2 a - 52) (- 1074);
             r = of_int (round_half_even (a / pow2 q)) * pow2 q
         in if pow2 1024 \<le> r then (if 0 < x then PInf else NInf)
            else Finite (if 0 < x then r else - r)))"

fun d_add :: "double \<Rightarrow> double \<Rightarrow> double" where
  \<comment> \<open>\<open>x + y\<close> on numbers\<close>
  "d_add (Finite a) (Finite b) = fl (a + b)"
| "d_add NaN y = NaN"
| "d_add x NaN = NaN"
| "d_add PInf NInf = NaN"
| "d_add NInf PInf = NaN"
| "d_add PInf y = PInf"
| "d_add x PInf = PInf"
| "d_add NInf y = NInf"
| "d_add x NInf = NInf"

fun d_le :: "double \<Rightarrow> double \<Rightarrow> bool" where
  \<comment> \<open>\<open>x <= y\<close> on numbers: false as soon as one is NaN\<close>
  "d_le NaN y = False"
| "d_le x NaN = False"
| "d_le NInf y = True"
| "d_le x PInf = True"
| "d_le PInf y = False"
| "d_le x NInf = False"
| "d_le (Finite a) (Finite b) = (a \<le> b)"

section \<open>MealPlan.jsx\<close>

text \<open>
  The meal plan is what \<open>JSON.parse\<close> made of the backend's answer, so it can be any
  JSON value; the component checks none of its types. An object is the list of its keys
  and values, each key once. A JavaScript value is a JSON value or \<open>undefined\<close>, which
  is \<open>None\<close>. Strings are their bytes in UTF-8.
\<close>

datatype json =
    JSON_null
  | JSON_bool bool
  | JSON_number double
  | JSON_string string
  | JSON_array "json list"
  | JSON_object "(string \<times> json) list"

type_synonym js_value = "json option"

definition json_numeral :: "rat \<Rightarrow> json" where
  \<comment> \<open>what \<open>JSON.parse\<close> makes of a numeral that reads \<open>q\<close>\<close>
  "json_numeral q = JSON_number (fl q)"

fun is_truthy :: "js_value \<Rightarrow> bool" where
  "is_truthy None = False"
| "is_truthy (Some JSON_null) = False"
| "is_truthy (Some (JSON_bool b)) = b"
| "is_truthy (Some (JSON_number d)) = (d \<noteq> Finite 0 \<and> d \<noteq> NaN)"
| "is_truthy (Some (JSON_string s)) = (s \<noteq> [])"
| "is_truthy (Some (JSON_array xs)) = True"
| "is_truthy (Some (JSON_object kvs)) = True"

definition property :: "js_value \<Rightarrow> string \<Rightarrow> js_value" where
  \<comment> \<open>\<open>v?.[key]\<close>, for the keys read here (\<open>meal_plan\<close>, the meal types, \<open>total_carbs\<close>):
      only an object has one of them\<close>
  "property v key = (case v of Some (JSON_object kvs) \<Rightarrow> map_of kvs key | _ \<Rightarrow> None)"

datatype js_error = TypeError

text \<open>
  The component never converts a value itself: \<open>+\<close> and \<open><=\<close> do. Two of the
  conversions are the engine's own algorithms, the decimal text of a number
  (\<open>Number::toString\<close>) and the number a text reads as (\<open>StringToNumber\<close>). They are
  not code of the component, and nothing proved below depends on what they return, so
  they are parameters.
\<close>

record js_engine =
  NumberToString :: "double \<Rightarrow> string"
  StringToNumber :: "string \<Rightarrow> double"

fun ToString :: "js_engine \<Rightarrow> json \<Rightarrow> js_error + string"
  and join_elements :: "js_engine \<Rightarrow> json list \<Rightarrow> js_error + string" where
  "ToString rt JSON_null = Inr ''null''"
| "ToString rt (JSON_bool b) = Inr (if b then ''true'' else ''false'')"
| "ToString rt (JSON_number d) = Inr (NumberToString rt d)"
| "ToString rt (JSON_string s) = Inr s"
| "ToString rt (JSON_array xs) = join_elements rt xs"
| "ToString rt (JSON_object kvs) =
     \<comment> \<open>an own \<open>toString\<close> that came from JSON is not callable, and \<open>valueOf\<close> gives no
         primitive\<close>
     (if ''toString'' \<in> fst ` set kvs then Inl TypeError else Inr ''[object Object]'')"
| "join_elements rt [] = Inr []"
| "join_elements rt (x # xs) =
     (case (if x = JSON_null then Inr [] else ToString rt x) of
        Inl e \<Rightarrow> Inl e
      | Inr s \<Rightarrow>
          (if xs = [] then Inr s
           else (case join_elements rt xs of
                   Inl e \<Rightarrow> Inl e
                 | Inr t \<Rightarrow> Inr (s @ '','' @ t))))"

fun ToPrimitive :: "js_engine \<Rightarrow> json \<Rightarrow> js_error + json" where
  "ToPrimitive rt (JSON_array xs) = map_sum id JSON_string (ToString rt (JSON_array xs))"
| "ToPrimitive rt (JSON_object kvs) = map_sum id JSON_string (ToString rt (JSON_object kvs))"
| "ToPrimitive rt v = Inr v"

fun ToNumber :: "js_engine \<Rightarrow> js_value \<Rightarrow> double" where
  \<comment> \<open>of a primitive; the last equation is never reached after \<open>ToPrimitive\<close>\<close>
  "ToNumber rt None = NaN"
| "ToNumber rt (Some JSON_null) = Finite 0"
| "ToNumber rt (Some (JSON_bool b)) = Finite (if b then 1 else 0)"
| "ToNumber rt (Some (JSON_number d)) = d"
| "ToNumber rt (Some (JSON_string s)) = StringToNumber rt s"
| "ToNumber rt (Some v) = NaN"

definition js_add :: "js_engine \<Rightarrow> json \<Rightarrow> json \<Rightarrow> js_error + json" where
  \<comment> \<open>\<open>a + b\<close>: the texts joined as soon as one side is a string, else the numbers added\<close>
  "js_add rt a b =
     (case ToPrimitive rt a of
        Inl e \<Rightarrow> Inl e
      | Inr pa \<Rightarrow>
          (case ToPrimitive rt b of
             Inl e \<Rightarrow> Inl e
           | Inr pb \<Rightarrow>
               (case (pa, pb, ToString rt pa, ToString rt pb) of
                  (JSON_string s, _, _, Inr t) \<Rightarrow> Inr (JSON_string (s @ t))
                | (_, JSON_string t, Inr s, _) \<Rightarrow> Inr (JSON_string (s @ t))
                | _ \<Rightarrow> Inr (JSON_number (d_add (ToNumber rt (Some pa)) (ToNumber rt (Some pb)))))))"

definition unit_rank :: "char \<Rightarrow> nat" where
  \<comment> \<open>strings compare by UTF-16 code units: there the characters from U+E000 to U+FFFF
      (lead bytes EE and EF) come after those beyond U+FFFF (lead bytes F0 to F4)\<close>
  "unit_rank c = (let n = of_char c in if n = 0xEE \<or> n = 0xEF then n + 0x10 else n)"

fun text_le :: "string \<Rightarrow> string \<Rightarrow> bool" where
  "text_le [] t = True"
| "text_le (c # s) [] = False"
| "text_le (c # s) (d # t) = (if c = d then text_le s t else unit_rank c < unit_rank d)"

definition js_le :: "js_engine \<Rightarrow> json \<Rightarrow> js_value \<Rightarrow> js_error + bool" where
  \<comment> \<open>\<open>a <= b\<close>: two strings compare as texts, anything else as numbers\<close>
  "js_le rt a b =
     (case ToPrimitive rt a of
        Inl e \<Rightarrow> Inl e
      | Inr pa \<Rightarrow>
          (case b of
             None \<Rightarrow> Inr False
           | Some vb \<Rightarrow>
               (case ToPrimitive rt vb of
                  Inl e \<Rightarrow> Inl e
                | Inr pb \<Rightarrow>
                    (case (pa, pb) of
                       (JSON_string s, JSON_string t) \<Rightarrow> Inr (text_le s t)
                     | _ \<Rightarrow> Inr (d_le (ToNumber rt (Some pa)) (ToNumber rt (Some pb)))))))"

definition MEAL_TYPES :: "string list" where
  \<comment> \<open>the \<open>key\<close> fields of the constant, in its order\<close>
  "MEAL_TYPES = [''breakfast'', ''lunch'', ''dinner'', ''snacks'']"

definition mealData_of :: "json \<Rightarrow> string \<Rightarrow> js_value" where
  \<comment> \<open>\<open>mealPlan.meal_plan?.[meal.key] || mealPlan[meal.key]\<close>\<close>
  "mealData_of mealPlan key =
     (let nested = property (property (Some mealPlan) ''meal_plan'') key
      in if is_truthy nested then nested else property (Some mealPlan) key)"

definition total_carbs_or_zero :: "js_value \<Rightarrow> json" where
  \<comment> \<open>\<open>mealData?.total_carbs || 0\<close>\<close>
  "total_carbs_or_zero mealData =
     (case property mealData ''total_carbs'' of
        None \<Rightarrow> JSON_number (Finite 0)
      | Some c \<Rightarrow> if is_truthy (Some c) then c else JSON_number (Finite 0))"

definition totalCarbs :: "js_engine \<Rightarrow> json \<Rightarrow> js_error + json" where
  \<comment> \<open>\<open>MEAL_TYPES.reduce((sum, meal) => sum + ..., 0)\<close>; a \<open>TypeError\<close> ends it\<close>
  "totalCarbs rt mealPlan =
     foldl (\<lambda>sum key.
              case sum of
                Inl e \<Rightarrow> Inl e
              | Inr s \<Rightarrow> js_add rt s (total_carbs_or_zero (mealData_of mealPlan key)))
       (Inr (JSON_number (Finite 0))) MEAL_TYPES"

datatype limit_note = Within_daily_carb_limit | Exceeds_daily_carb_limit

record daily_summary =
  shown_total :: json
  shown_limit :: js_value
  bar_green :: bool
  indicator :: limit_note

text \<open>
  \<open>MealPlan\<close> gives what the Daily Summary block of the component shows: \<open>None\<close> when
  the component returns \<open>null\<close>, \<open>Inl\<close> when computing the total or comparing it with
  the limit throws. The width of the bar converts the same two values and throws in the
  same cases. The other blocks (message, meals, tips) are not modelled; they can throw
  on a plan of the wrong shape, and then nothing is shown at all.
\<close>

definition MealPlan :: "js_engine \<Rightarrow> js_value \<Rightarrow> js_value \<Rightarrow> (js_error + daily_summary) option" where
  "MealPlan rt mealPlan dailyCarbsLimit =
     (case mealPlan of
        None \<Rightarrow> None
      | Some mp \<Rightarrow>
          if \<not> is_truthy (Some mp) then None
          else Some
            (case totalCarbs rt mp of
               Inl e \<Rightarrow> Inl e
             | Inr t \<Rightarrow>
                 (case js_le rt t dailyCarbsLimit of
                    Inl e \<Rightarrow> Inl e
                  | Inr w \<Rightarrow>
                      Inr \<lparr>shown_total = t,
                           shown_limit = dailyCarbsLimit,
                           bar_green = w,
                           indicator = (if w then Within_daily_carb_limit
                                        else Exceeds_daily_carb_limit)\<rparr>)))"

text \<open>
  What the summary is meant to show, written without the code's lookup and loop. The
  meal a plan lists for a meal type is the entry of its \<open>meal_plan\<close> object when that
  has a usable one, else the plan's own entry. The meal contributes its \<open>total_carbs\<close>
  when that is a number, and 0 when the meal or the field is missing or empty; a
  \<open>total_carbs\<close> that is some other value has no number to contribute.
\<close>

definition listed_meal :: "json \<Rightarrow> string \<Rightarrow> js_value" where
  "listed_meal plan key =
     (case property (property (Some plan) ''meal_plan'') key of
        None \<Rightarrow> property (Some plan) key
      | Some m \<Rightarrow> if is_truthy (Some m) then Some m else property (Some plan) key)"

definition carbs_number :: "json \<Rightarrow> string \<Rightarrow> double option" where
  "carbs_number plan key =
     (case property (listed_meal plan key) ''total_carbs'' of
        None \<Rightarrow> Some (Finite 0)
      | Some JSON_null \<Rightarrow> Some (Finite 0)
      | Some (JSON_bool b) \<Rightarrow> if b then None else Some (Finite 0)
      | Some (JSON_number d) \<Rightarrow> Some (if d = NaN then Finite 0 else d)
      | Some (JSON_string s) \<Rightarrow> if s = [] then Some (Finite 0) else None
      | Some (JSON_array xs) \<Rightarrow> None
      | Some (JSON_object kvs) \<Rightarrow> None)"

definition limit_number :: "js_value \<Rightarrow> double option" where
  \<comment> \<open>the number a limit compares as, when it is a number, \<open>null\<close> or \<open>undefined\<close>\<close>
  "limit_number limit =
     (case limit of
        None \<Rightarrow> Some NaN
      | Some JSON_null \<Rightarrow> Some (Finite 0)
      | Some (JSON_number l) \<Rightarrow> Some l
      | _ \<Rightarrow> None)"




definition plan_of_large :: json where
  "plan_of_large =
     JSON_object
       [(''breakfast'', JSON_object [(''total_carbs'', json_numeral 9007199254740992)]),
        (''lunch'', JSON_object [(''total_carbs'', json_numeral 1)])]"

section \<open>api.js: the response interceptor\<close>

text \<open>
  The rejected value is an axios error: a \<open>message\<close> and, when the server answered, a
  \<open>response\<close> with a \<open>status\<close> and the parsed body \<open>data\<close>, which is any JSON value.
  Strings are their bytes and \<open>toLowerCase\<close> acts on the ASCII letters.
\<close>

datatype jsval =
    JUndefined
  | JNull
  | JBool bool
  | JNum rat
  | JStr string
  | JObj "(string \<times> jsval) list"

fun truthy :: "jsval \<Rightarrow> bool" where
  "truthy JUndefined = False"
| "truthy JNull = False"
| "truthy (JBool b) = b"
| "truthy (JNum n) = (n \<noteq> 0)"
| "truthy (JStr s) = (s \<noteq> [])"
| "truthy (JObj kvs) = True"

definition js_or :: "jsval \<Rightarrow> jsval \<Rightarrow> jsval" where
  \<comment> \<open>\<open>a || b\<close>\<close>
  "js_or a b = (if truthy a then a else b)"

fun get_prop :: "jsval \<Rightarrow> string \<Rightarrow> jsval" where
  \<comment> \<open>\<open>v?.key\<close>: a primitive has no such property\<close>
  "get_prop (JObj kvs) key = (case map_of kvs key of None \<Rightarrow> JUndefined | Some v \<Rightarrow> v)"
| "get_prop v key = JUndefined"

record axios_response =
  status :: int
  data :: jsval

record axios_error =
  response :: "axios_response option"
  message :: jsval

definition toLowerChar :: "char \<Rightarrow> char" where
  "toLowerChar c =
     (case map_of (zip ''ABCDEFGHIJKLMNOPQRSTUVWXYZ'' ''abcdefghijklmnopqrstuvwxyz'') c of
        None \<Rightarrow> c
      | Some l \<Rightarrow> l)"

definition toLowerCase :: "string \<Rightarrow> string" where
  "toLowerCase s = map toLowerChar s"

fun str_includes :: "string \<Rightarrow> string \<Rightarrow> bool" where
  \<comment> \<open>\<open>s.includes(p)\<close>\<close>
  "str_includes [] p = (p = [])"
| "str_includes (c # cs) p = (prefix p (c # cs) \<or> str_includes cs p)"

definition USAGE_LIMIT_MESSAGE :: string where
  \<comment> \<open>the warning sign and its variation selector in UTF-8, then the text\<close>
  "USAGE_LIMIT_MESSAGE =
     [CHR 0xE2, CHR 0x9A, CHR 0xA0, CHR 0xEF, CHR 0xB8, CHR 0x8F]
     @ '' AI Service Usage Limit Reached. Please try again later.''"

definition detail_or_message :: "axios_error \<Rightarrow> jsval" where
  \<comment> \<open>\<open>error.response?.data?.detail || error.message\<close>: the interceptor reads the
      incoming message so, and so does \<open>ChatBox.jsx\<close> in its \<open>catch\<close>\<close>
  "detail_or_message error =
     js_or (case response error of None \<Rightarrow> JUndefined | Some r \<Rightarrow> get_prop (data r) ''detail'')
           (message error)"

definition isQuotaError :: "axios_error \<Rightarrow> bool" where
  "isQuotaError error =
     ((case response error of None \<Rightarrow> False | Some r \<Rightarrow> status r = 429)
      \<or> (case detail_or_message error of
            JStr s \<Rightarrow> str_includes (toLowerCase s) ''quota''
                      \<or> str_includes (toLowerCase s) ''limit''
                      \<or> str_includes (toLowerCase s) ''resource exhausted''
          | _ \<Rightarrow> False))"

definition on_rejected :: "axios_error \<Rightarrow> axios_error" where
  \<comment> \<open>the second argument of \<open>api.interceptors.response.use\<close>: the error it rejects with\<close>
  "on_rejected error =
     (let errorMessage = detail_or_message error;
          errorMessage = (if isQuotaError error then JStr USAGE_LIMIT_MESSAGE else errorMessage)
      in case response error of
           Some r \<Rightarrow>
             (let d = (if \<not> truthy (data r) then JObj [] else data r);
                  d = (case d of
                         JObj kvs \<Rightarrow> JObj (AList.update ''detail'' errorMessage kvs)
                       | _ \<Rightarrow> d)
              in error\<lparr>response := Some (r\<lparr>data := d\<rparr>)\<rparr>)
         | None \<Rightarrow> error\<lparr>message := errorMessage\<rparr>)"

section \<open>Properties of the profile form\<close>

lemma validate_accepts_iff:
  "snd (validate f) \<longleftrightarrow>
     (\<exists>ft lb. heightFt f = Some ft \<and> 3 \<le> ft \<and> ft \<le> 8
            \<and> weightLbs f = Some lb \<and> 50 \<le> lb \<and> lb \<le> 700)"
  by (cases "heightFt f"; cases "weightLbs f")
     (auto simp: validate_def Number_of_def Let_def)

lemma Math_round_pos: "1 / 2 \<le> x \<Longrightarrow> 0 < Math_round x"
  by (simp add: Math_round_def)

lemma Math_round_eq_iff:
  "Math_round x = of_int z \<longleftrightarrow> of_int z \<le> x + 1 / 2 \<and> x + 1 / 2 < of_int z + 1"
  by (simp add: Math_round_def floor_eq_iff)

lemma handleSubmit_calls_onSubmit:
  assumes "handleSubmit f = (f', Some p)"
  shows "snd (validate f)"
    and "height_cm p = Math_round ((Number_of (heightFt f) * 12 + Number_of (heightIn f)) * 2.54)"
    and "weight_kg p = Math_round (Number_of (weightLbs f) / 2.20462)"
  using assms
  by (auto simp: handleSubmit_def Let_def Number_of_def
      split: prod.splits if_splits option.splits)

lemma handleSubmit_rejected:
  "\<not> snd (validate f) \<Longrightarrow> snd (handleSubmit f) = None"
  by (cases "validate f") (simp add: handleSubmit_def Let_def)

text \<open>
  The weight check is enough for its field: an accepted weight is at least 50 lb, which
  is more than 22 kg.
\<close>

lemma handleSubmit_weight_positive:
  assumes "handleSubmit f = (f', Some p)"
  shows "0 < weight_kg p"
proof -
  from handleSubmit_calls_onSubmit(1)[OF assms] obtain lb
    where lb: "weightLbs f = Some lb" "50 \<le> lb"
    by (auto simp: validate_accepts_iff)
  have "1 / 2 \<le> lb / 2.20462" using lb(2) by simp
  then show ?thesis
    using handleSubmit_calls_onSubmit(3)[OF assms] lb(1)
    by (simp add: Number_of_def Math_round_pos)
qed

text \<open>
  The height check reads the feet only. With the inches blank or not negative the
  height in centimetres is positive.
\<close>

lemma handleSubmit_height_positive:
  assumes "handleSubmit f = (f', Some p)" and "0 \<le> Number_of (heightIn f)"
  shows "0 < height_cm p"
proof -
  from handleSubmit_calls_onSubmit(1)[OF assms(1)] obtain ft
    where ft: "heightFt f = Some ft" "3 \<le> ft"
    by (auto simp: validate_accepts_iff)
  have "1 / 2 \<le> (ft * 12 + Number_of (heightIn f)) * 2.54"
    using ft(2) assms(2) by simp
  then show ?thesis
    using handleSubmit_calls_onSubmit(2)[OF assms(1)] ft(1)
    by (simp add: Number_of_def Math_round_pos)
qed

lemma handleSubmit_negative_inches_example:
  "map_option height_cm
     (snd (handleSubmit (blank_form\<lparr>heightFt := Some 5, heightIn := Some (- 100),
                                     weightLbs := Some 150\<rparr>)))
   = Some (- 102)"
  using Math_round_eq_iff [of "- 40 * 2.54" "- 102"]
  by (simp add: handleSubmit_def validate_def blank_form_def Number_of_def)

text \<open>
  C2. Every submission that \<open>validate\<close> accepts should hand \<open>onSubmit\<close> a profile with
  \<open>height_cm > 0\<close> and \<open>weight_kg > 0\<close>. The inches field is never checked: 5 ft with
  -60 in and 150 lb is accepted, and the profile submitted has \<open>height_cm = 0\<close>.
\<close>

theorem validate_accepts_height_zero:
  "snd (validate (blank_form\<lparr>heightFt := Some 5, heightIn := Some (- 60),
                              weightLbs := Some 150\<rparr>))
   \<and> map_option height_cm
        (snd (handleSubmit (blank_form\<lparr>heightFt := Some 5, heightIn := Some (- 60),
                                        weightLbs := Some 150\<rparr>)))
       = Some 0"
  by (simp add: handleSubmit_def validate_def blank_form_def Number_of_def Math_round_def
      floor_eq_iff)

section \<open>Properties of the rounding\<close>

lemma pow2_powi: "pow2 e = 2 powi e"
  unfolding pow2_def power_int_def by (simp add: inverse_eq_divide power_one_over)

lemma pow2_pos: "0 < pow2 e"
  unfolding pow2_def by simp

lemma pow2_add: "pow2 (a + b) = pow2 a * pow2 b"
  unfolding pow2_powi by (simp add: power_int_add)

lemma pow2_mono: "a \<le> b \<Longrightarrow> pow2 a \<le> pow2 b"
  unfolding pow2_powi by (simp add: power_int_increasing)

lemma pow2_of_nat: "0 \<le> e \<Longrightarrow> pow2 e = of_int (2 ^ nat e)"
  unfolding pow2_def by simp

text \<open>\<open>ilog2\<close> finds the binade of a positive rational, and only that one.\<close>

lemma ilog2_bounds:
  assumes "0 < a"
  shows "pow2 (ilog2 a) \<le> a \<and> a < pow2 (ilog2 a + 1)"
proof -
  obtain p q where pq: "quotient_of a = (p, q)" by (cases "quotient_of a")
  then have q: "0 < q" and a: "a = of_int p / of_int q"
    using quotient_of_denom_pos quotient_of_div by auto
  from assms a q have p: "0 < p" by (simp add: zero_less_divide_iff)
  define d where "d = bitlen p - bitlen q"
  have lp: "1 \<le> bitlen p" using p by (simp add: bitlen_alt_def)
  have lq: "1 \<le> bitlen q" using q by (simp add: bitlen_alt_def)
  have P1: "pow2 (bitlen p - 1) \<le> of_int p"
    using bitlen_bounds[OF p] lp by (simp add: pow2_of_nat del: of_int_power)
  have P2: "of_int p < pow2 (bitlen p)"
    using bitlen_bounds[OF p] lp by (simp add: pow2_of_nat del: of_int_power)
  have Q1: "pow2 (bitlen q - 1) \<le> of_int q"
    using bitlen_bounds[OF q] lq by (simp add: pow2_of_nat del: of_int_power)
  have Q2: "of_int q < pow2 (bitlen q)"
    using bitlen_bounds[OF q] lq by (simp add: pow2_of_nat del: of_int_power)
  have "of_int p < pow2 (d + 1) * pow2 (bitlen q - 1)"
    using P2 by (simp add: d_def pow2_add [symmetric])
  also have "\<dots> \<le> pow2 (d + 1) * of_int q"
    using Q1 pow2_pos [of "d + 1"] by simp
  finally have up: "a < pow2 (d + 1)"
    using q by (simp add: a pos_divide_less_eq)
  have "pow2 (d - 1) * of_int q \<le> pow2 (d - 1) * pow2 (bitlen q)"
    using Q2 pow2_pos [of "d - 1"] by simp
  also have "\<dots> = pow2 (bitlen p - 1)"
    by (simp add: d_def pow2_add [symmetric])
  also have "\<dots> \<le> of_int p" by (rule P1)
  finally have lo: "pow2 (d - 1) \<le> a"
    using q by (simp add: a pos_le_divide_eq)
  show ?thesis
    using up lo by (auto simp: ilog2_def pq d_def Let_def)
qed

lemma ilog2_unique:
  assumes "pow2 e \<le> a" and "a < pow2 (e + 1)"
  shows "ilog2 a = e"
proof -
  have a: "0 < a" using assms(1) pow2_pos [of e] by linarith
  note b = ilog2_bounds [OF a]
  have "\<not> ilog2 a < e"
  proof
    assume "ilog2 a < e"
    then have "pow2 (ilog2 a + 1) \<le> pow2 e" by (intro pow2_mono) simp
    with b assms show False by linarith
  qed
  moreover have "\<not> e < ilog2 a"
  proof
    assume "e < ilog2 a"
    then have "pow2 (e + 1) \<le> pow2 (ilog2 a)" by (intro pow2_mono) simp
    with b assms show False by linarith
  qed
  ultimately show ?thesis by simp
qed

lemma round_half_even_near:
  assumes "of_int m - 1 / 2 < x" and "x < of_int m + 1 / 2"
  shows "round_half_even x = m"
proof -
  have "\<lfloor>x\<rfloor> = m \<or> \<lfloor>x\<rfloor> = m - 1"
    using assms by (simp add: floor_eq_iff) linarith
  then show ?thesis
  proof
    assume f: "\<lfloor>x\<rfloor> = m"
    then have "x - of_int m < 1 / 2" using assms by simp
    with f show ?thesis by (simp add: round_half_even_def)
  next
    assume f: "\<lfloor>x\<rfloor> = m - 1"
    then have "1 / 2 < x - of_int (m - 1)" using assms by simp
    with f show ?thesis by (simp add: round_half_even_def Let_def)
  qed
qed

lemma round_half_even_tie:
  assumes "x = of_int m + 1 / 2"
  shows "round_half_even x = (if even m then m else m + 1)"
proof -
  have f: "\<lfloor>x\<rfloor> = m" using assms by (simp add: floor_eq_iff)
  have r: "x - of_int m = 1 / 2" using assms by simp
  show ?thesis unfolding round_half_even_def Let_def f r by simp
qed

text \<open>
  The value of \<open>fl\<close> at a positive rational of the normal range, from its binade \<open>e\<close>
  and the integer \<open>m\<close> next to its significand: these two lemmas evaluate \<open>fl\<close> with
  the arithmetic of numerals alone.
\<close>

lemma fl_near:
  assumes "pow2 e \<le> x" and "x < pow2 (e + 1)" and "- 1022 \<le> e"
    and "of_int m - 1 / 2 < x / pow2 (e - 52)" and "x / pow2 (e - 52) < of_int m + 1 / 2"
    and "of_int m * pow2 (e - 52) < pow2 1024"
  shows "fl x = Finite (of_int m * pow2 (e - 52))"
proof -
  have x: "0 < x" using assms(1) pow2_pos [of e] by linarith
  have ax: "\<bar>x\<bar> = x" using x by simp
  have e: "ilog2 x = e" using ilog2_unique assms(1,2) by simp
  have q: "max (e - 52) (- 1074) = e - 52" using assms(3) by simp
  have m: "round_half_even (x / pow2 (e - 52)) = m"
    using assms(4,5) by (rule round_half_even_near)
  show ?thesis
    using x assms(6) by (simp add: fl_def ax e q m Let_def)
qed

lemma fl_tie:
  assumes "pow2 e \<le> x" and "x < pow2 (e + 1)" and "- 1022 \<le> e"
    and "x / pow2 (e - 52) = of_int m + 1 / 2"
    and "of_int (if even m then m else m + 1) * pow2 (e - 52) < pow2 1024"
  shows "fl x = Finite (of_int (if even m then m else m + 1) * pow2 (e - 52))"
proof -
  have x: "0 < x" using assms(1) pow2_pos [of e] by linarith
  have ax: "\<bar>x\<bar> = x" using x by simp
  have e: "ilog2 x = e" using ilog2_unique assms(1,2) by simp
  have q: "max (e - 52) (- 1074) = e - 52" using assms(3) by simp
  have m: "round_half_even (x / pow2 (e - 52)) = (if even m then m else m + 1)"
    using assms(4) by (rule round_half_even_tie)
  show ?thesis
    using x assms(5) by (simp add: fl_def ax e q m Let_def)
qed

lemma d_le_NaN [simp]: "d_le x NaN = False"
  by (cases x) simp_all

















text \<open>
  Beyond 53 bits an addition loses the unit: 9007199254740992, which is \<open>2^53\<close>,
  plus 1 is 9007199254740992 again.
\<close>

lemma fl_2_53: "fl 9007199254740992 = Finite 9007199254740992"
  using fl_near [of 53 9007199254740992 4503599627370496] by (simp add: pow2_def)

lemma fl_1: "fl 1 = Finite 1"
  using fl_near [of 0 1 4503599627370496] by (simp add: pow2_def)

lemma sum_of_large:
  "d_add (d_add (d_add (d_add (Finite 0) (Finite 9007199254740992)) (Finite 1)) (Finite 0))
         (Finite 0)
     = Finite 9007199254740992"
  using fl_tie [of 53 9007199254740993 4503599627370496]
  by (simp add: pow2_def fl_2_53)

section \<open>Properties of the meal plan summary\<close>

lemma js_add_numbers:
  "js_add rt (JSON_number a) (JSON_number b) = Inr (JSON_number (d_add a b))"
  by (simp add: js_add_def)

lemma listed_meal_mealData: "mealData_of plan key = listed_meal plan key"
  by (simp add: mealData_of_def listed_meal_def Let_def split: option.splits)

lemma carbs_number_contribution:
  "carbs_number plan key = Some c \<Longrightarrow>
     total_carbs_or_zero (mealData_of plan key) = JSON_number c"
  by (auto simp: carbs_number_def total_carbs_or_zero_def listed_meal_mealData
      split: option.splits json.splits if_splits)

text \<open>
  When each meal type has a number to contribute, the loop adds these numbers from 0 in
  the order breakfast, lunch, dinner, snacks, rounding after each addition.
\<close>

lemma totalCarbs_numbers:
  assumes "carbs_number plan ''breakfast'' = Some b" and "carbs_number plan ''lunch'' = Some l"
    and "carbs_number plan ''dinner'' = Some d" and "carbs_number plan ''snacks'' = Some s"
  shows "totalCarbs rt plan
           = Inr (JSON_number (d_add (d_add (d_add (d_add (Finite 0) b) l) d) s))"
  by (simp add: totalCarbs_def MEAL_TYPES_def assms [THEN carbs_number_contribution]
      js_add_numbers)

lemma js_le_numbers:
  "limit_number limit = Some l \<Longrightarrow> js_le rt (JSON_number t) limit = Inr (d_le t l)"
  by (auto simp: limit_number_def js_le_def split: option.splits json.splits)

lemma MealPlan_null: "\<not> is_truthy mealPlan \<Longrightarrow> MealPlan rt mealPlan limit = None"
  by (auto simp: MealPlan_def split: option.splits)

text \<open>
  Whatever the plan and the limit are, the note shown follows the comparison
  \<open>totalCarbs <= dailyCarbsLimit\<close> of the total shown.
\<close>

lemma MealPlan_indicator:
  assumes "MealPlan rt mealPlan limit = Some (Inr v)"
  shows "(indicator v = Within_daily_carb_limit \<longleftrightarrow> js_le rt (shown_total v) limit = Inr True)
       \<and> (indicator v = Exceeds_daily_carb_limit \<longleftrightarrow> js_le rt (shown_total v) limit = Inr False)"
  using assms
  by (auto simp: MealPlan_def split: option.splits if_splits sum.splits)



text \<open>
  The rounding can err to the other side as well: with 9007199254740992 and 1 the exact
  sum is above a limit of 9007199254740992, and the note shown is "Within daily carb
  limit".
\<close>

lemma carbs_of_large:
  "carbs_number plan_of_large ''breakfast'' = Some (Finite 9007199254740992)"
  "carbs_number plan_of_large ''lunch'' = Some (Finite 1)"
  "carbs_number plan_of_large ''dinner'' = Some (Finite 0)"
  "carbs_number plan_of_large ''snacks'' = Some (Finite 0)"
  by (simp_all add: carbs_number_def listed_meal_def property_def plan_of_large_def
      json_numeral_def fl_2_53 fl_1)

lemma MealPlan_large_example:
  "MealPlan rt (Some plan_of_large) (Some (json_numeral 9007199254740992))
     = Some (Inr \<lparr>shown_total = JSON_number (Finite 9007199254740992),
                  shown_limit = Some (json_numeral 9007199254740992),
                  bar_green = True,
                  indicator = Within_daily_carb_limit\<rparr>)"
proof -
  have limit: "limit_number (Some (json_numeral 9007199254740992))
                 = Some (Finite 9007199254740992)"
    by (simp add: limit_number_def json_numeral_def fl_2_53)
  show ?thesis
    by (simp add: MealPlan_def plan_of_large_def [symmetric]
        totalCarbs_numbers [OF carbs_of_large] sum_of_large js_le_numbers [OF limit]
        del: d_add.simps)
      (simp add: plan_of_large_def)
qed




section \<open>Properties of the response interceptor\<close>

lemma str_includes_sublist: "str_includes s p \<longleftrightarrow> sublist p s"
  by (induction s) (auto simp: sublist_Cons_right)

lemma sublist_map_iff: "sublist p (map f s) \<longleftrightarrow> (\<exists>u. sublist u s \<and> map f u = p)"
proof
  assume "sublist p (map f s)"
  then show "\<exists>u. sublist u s \<and> map f u = p"
    using sublist_map_rightE [of p f s] by auto
next
  assume "\<exists>u. sublist u s \<and> map f u = p"
  then obtain u where "sublist u s" and "map f u = p" by blast
  then show "sublist p (map f s)"
    using map_mono_sublist [of u s f] by simp
qed

text \<open>
  The test \<open>s.toLowerCase().includes(p)\<close> holds exactly when a stretch of \<open>s\<close> reads
  \<open>p\<close> once its capitals are lowered.
\<close>

lemma includes_ignoring_case:
  "str_includes (toLowerCase s) p \<longleftrightarrow> (\<exists>u. sublist u s \<and> toLowerCase u = p)"
  by (simp add: str_includes_sublist toLowerCase_def sublist_map_iff)

text \<open>
  When the server gave no response, or a body that is empty or an object, the message
  a caller reads back is the usage-limit text for a quota error and the incoming one
  otherwise.
\<close>

lemma on_rejected_object_body:
  assumes "case response e of None \<Rightarrow> True
           | Some r \<Rightarrow> \<not> truthy (data r) \<or> (\<exists>kvs. data r = JObj kvs)"
  shows "detail_or_message (on_rejected e)
           = (if isQuotaError e then JStr USAGE_LIMIT_MESSAGE else detail_or_message e)"
proof (cases "response e")
  case None
  then show ?thesis
    by (simp add: on_rejected_def detail_or_message_def js_or_def USAGE_LIMIT_MESSAGE_def)
next
  case (Some r)
  then show ?thesis using assms
    by (auto simp: on_rejected_def detail_or_message_def js_or_def update_conv'
        USAGE_LIMIT_MESSAGE_def Let_def)
qed

lemma on_rejected_quota_example:
  "detail_or_message
     (on_rejected \<lparr>response = Some \<lparr>status = 500,
                                    data = JObj [(''detail'', JStr ''Daily QUOTA used up'')]\<rparr>,
                   message = JStr ''Request failed with status code 500''\<rparr>)
   = JStr USAGE_LIMIT_MESSAGE"
  by (simp add: isQuotaError_def on_rejected_def detail_or_message_def js_or_def
      toLowerCase_def toLowerChar_def USAGE_LIMIT_MESSAGE_def)

text \<open>
  C9. The message propagated to callers should be the usage-limit text exactly when the
  status is 429 or the incoming message contains "quota", "limit" or "resource
  exhausted" in any case. A 429 whose body is a plain string is a quota error, yet the
  interceptor stores the text nowhere: the body is not an object, so \<open>detail\<close> is not
  set, and \<open>error.message\<close> is only written when there is no response. The error is
  rejected as it came, and a caller reads the message axios gave it.
\<close>

theorem on_rejected_429_text_body:
  "isQuotaError \<lparr>response = Some \<lparr>status = 429, data = JStr ''Too Many Requests''\<rparr>,
                  message = JStr ''Request failed with status code 429''\<rparr>
   \<and> on_rejected \<lparr>response = Some \<lparr>status = 429, data = JStr ''Too Many Requests''\<rparr>,
                   message = JStr ''Request failed with status code 429''\<rparr>
       = \<lparr>response = Some \<lparr>status = 429, data = JStr ''Too Many Requests''\<rparr>,
          message = JStr ''Request failed with status code 429''\<rparr>
   \<and> detail_or_message
        (on_rejected \<lparr>response = Some \<lparr>status = 429, data = JStr ''Too Many Requests''\<rparr>,
                      message = JStr ''Request failed with status code 429''\<rparr>)
       = JStr ''Request failed with status code 429''
   \<and> JStr ''Request failed with status code 429'' \<noteq> JStr USAGE_LIMIT_MESSAGE"
  by (simp add: isQuotaError_def on_rejected_def detail_or_message_def js_or_def
      USAGE_LIMIT_MESSAGE_def)

section \<open>Properties of the wizard steps\<close>

lemmas STEPS = START_def PROFILE_def CARE_MODE_def DASHBOARD_def METRICS_def MEAL_PLAN_def

text \<open>
  C10. \<open>handleBack\<close> maps MEAL_PLAN to METRICS, METRICS to DASHBOARD, DASHBOARD to
  CARE_MODE, CARE_MODE to PROFILE and PROFILE to START; it leaves START and every other
  value as it is, so the step never increases.
\<close>

theorem handleBack_never_advances:
  "handleBack MEAL_PLAN = METRICS \<and> handleBack METRICS = DASHBOARD
   \<and> handleBack DASHBOARD = CARE_MODE \<and> handleBack CARE_MODE = PROFILE
   \<and> handleBack PROFILE = START \<and> handleBack START = START
   \<and> (s \<notin> {PROFILE, CARE_MODE, DASHBOARD, METRICS, MEAL_PLAN} \<longrightarrow> handleBack s = s)
   \<and> handleBack s \<le> s"
  by (simp add: handleBack_def STEPS)

theorem handleBack_never_advances_witness:
  "(7::int) \<notin> {PROFILE, CARE_MODE, DASHBOARD, METRICS, MEAL_PLAN} \<and> handleBack 7 = 7
   \<and> handleBack MEAL_PLAN = METRICS \<and> handleBack 7 \<le> 7"
  using handleBack_never_advances [of 7] by (simp add: STEPS)

end
